theory Spec2Isabelle
  imports Complex_Main "HOL-Library.Sublist" "HOL-Library.Multiset"
begin

section \<open>Python values shared by the model\<close>

text \<open>
  The exceptions the keyword research tool can see.  \<open>GoogleAdsException\<close> carries the
  list of (error code, message) pairs of \<open>ex.failure.errors\<close>; \<open>OtherException\<close> stands
  for any exception class the tool does not name (a transport fault, for instance).
\<close>

datatype py_exn =
    GoogleAdsException "(string \<times> string) list"
  | ValueError string
  | FileNotFoundError string
  | ZeroDivisionError
  | OverflowError
  | OtherException string

subsection \<open>True division of integers\<close>

text \<open>
  Python's \<open>a / b\<close> on two integers returns the binary64 number nearest to the exact
  quotient (ties to the even significand), raises \<open>ZeroDivisionError\<close> for \<open>b = 0\<close> and
  \<open>OverflowError\<close> when the rounded quotient does not fit a binary64.  A float is
  represented by the real number it denotes.

  For positive \<open>n\<close> and \<open>d\<close>, \<open>floor_log2 n d\<close> is the integer part of the binary
  logarithm of \<open>n / d\<close>, found from the bit lengths as \<open>int.bit_length\<close> gives them;
  \<open>binary64_nearest n d\<close> is the significand \<open>m\<close> (53 bits, fewer for a subnormal) and
  the exponent \<open>e\<close> of the nearest binary64, whose value is \<open>m * 2 ^ e\<close>.
\<close>

fun bit_length :: "nat \<Rightarrow> nat" where
  "bit_length n = (if n = 0 then 0 else Suc (bit_length (n div 2)))"

declare bit_length.simps [simp del]

definition round_half_even :: "int \<Rightarrow> int \<Rightarrow> int" where
  "round_half_even n d =
     (let q = n div d; r = n mod d
      in if 2 * r < d then q
         else if d < 2 * r then q + 1
         else if even q then q else q + 1)"

definition floor_log2 :: "int \<Rightarrow> int \<Rightarrow> int" where
  "floor_log2 n d =
     (let k = int (bit_length (nat n)) - int (bit_length (nat d))
      in if (if 0 \<le> k then d * 2 ^ nat k \<le> n else d \<le> n * 2 ^ nat (- k)) then k else k - 1)"

definition binary64_nearest :: "int \<Rightarrow> int \<Rightarrow> int \<times> int" where
  "binary64_nearest n d =
     (let e = max (floor_log2 n d - 52) (- 1074);
          m = (if 0 \<le> e then round_half_even n (d * 2 ^ nat e)
               else round_half_even (n * 2 ^ nat (- e)) d)
      in (m, e))"

definition float_value :: "int \<times> int \<Rightarrow> real" where
  "float_value p =
     (case p of (m, e) \<Rightarrow>
        if 0 \<le> e then of_int m * 2 ^ nat e else of_int m / 2 ^ nat (- e))"

definition binary64_div :: "int \<Rightarrow> int \<Rightarrow> real" where
  "binary64_div a b =
     (if a = 0 then 0
      else let x = float_value (binary64_nearest \<bar>a\<bar> \<bar>b\<bar>)
           in if (a < 0) = (b < 0) then x else - x)"

definition py_truediv :: "int \<Rightarrow> int \<Rightarrow> py_exn + real" where
  "py_truediv a b =
     (if b = 0 then Inl ZeroDivisionError
      else if 2 ^ 1024 \<le> \<bar>binary64_div a b\<bar> then Inl OverflowError
      else Inr (binary64_div a b))"

section \<open>Data model\<close>

text \<open>
  \<open>KeywordMetrics\<close> is the pydantic model of \<open>seo.py\<close>: an unbounded integer, a string
  and three floats.
\<close>

record KeywordMetrics =
  keyword :: string
  search_volume :: int
  competition :: string
  competition_index :: real
  low_bid_usd :: real
  high_bid_usd :: real

text \<open>
  The idea record of the remote service, as \<open>_extract_metrics\<close> reads it.  A field that is
  absent or \<open>None\<close> is \<open>None\<close> here.  The competition level is the service's enumeration;
  its member with value 0, \<open>UNSPECIFIED\<close>, is the only falsy one.
\<close>

datatype comp_level = UNSPECIFIED | UNKNOWN | LOW | MEDIUM | HIGH

fun comp_name :: "comp_level \<Rightarrow> string" where
  "comp_name UNSPECIFIED = ''UNSPECIFIED''"
| "comp_name UNKNOWN = ''UNKNOWN''"
| "comp_name LOW = ''LOW''"
| "comp_name MEDIUM = ''MEDIUM''"
| "comp_name HIGH = ''HIGH''"

record raw_metrics =
  avg_monthly_searches :: "int option"
  metrics_competition :: "comp_level option"
  metrics_competition_index :: "real option"
  low_top_of_page_bid_micros :: "int option"
  high_top_of_page_bid_micros :: "int option"

record keyword_idea =
  idea_text :: string
  keyword_idea_metrics :: raw_metrics

section \<open>The metrics normalizer\<close>

text \<open>\<open>x or 0\<close> on an optional number: \<open>None\<close> and zero are both falsy.\<close>

definition or_zero :: "'a::zero option \<Rightarrow> 'a" where
  "or_zero x = (case x of None \<Rightarrow> 0 | Some v \<Rightarrow> if v \<noteq> 0 then v else 0)"

definition extract_metrics :: "keyword_idea \<Rightarrow> py_exn + KeywordMetrics" where
  "extract_metrics idea =
     (let metrics = keyword_idea_metrics idea;
          volume = or_zero (avg_monthly_searches metrics);
          competition = (case metrics_competition metrics of
                           None \<Rightarrow> ''UNKNOWN''
                         | Some c \<Rightarrow> if c \<noteq> UNSPECIFIED then comp_name c else ''UNKNOWN'');
          comp_index = or_zero (metrics_competition_index metrics)
      in case py_truediv (or_zero (low_top_of_page_bid_micros metrics)) 1000000 of
           Inl ex \<Rightarrow> Inl ex
         | Inr low_bid \<Rightarrow>
             (case py_truediv (or_zero (high_top_of_page_bid_micros metrics)) 1000000 of
                Inl ex \<Rightarrow> Inl ex
              | Inr high_bid \<Rightarrow>
                  Inr \<lparr>keyword = idea_text idea, search_volume = volume,
                       competition = competition, competition_index = comp_index,
                       low_bid_usd = low_bid, high_bid_usd = high_bid\<rparr>))"

text \<open>An integer the remote service can send: its integer fields are 64 bits wide.\<close>

definition is_int64 :: "int \<Rightarrow> bool" where
  "is_int64 n = (- (2 ^ 63) \<le> n \<and> n < 2 ^ 63)"

text \<open>What the claim on normalization calls well-formed input.\<close>

definition well_formed_idea :: "keyword_idea \<Rightarrow> bool" where
  "well_formed_idea idea =
     (let metrics = keyword_idea_metrics idea
      in (case avg_monthly_searches metrics of None \<Rightarrow> True | Some v \<Rightarrow> 0 \<le> v)
       \<and> (case metrics_competition_index metrics of None \<Rightarrow> True | Some x \<Rightarrow> 0 \<le> x \<and> x \<le> 1)
       \<and> (case low_top_of_page_bid_micros metrics of None \<Rightarrow> True | Some n \<Rightarrow> 0 \<le> n \<and> n < 2 ^ 63)
       \<and> (case high_top_of_page_bid_micros metrics of None \<Rightarrow> True | Some n \<Rightarrow> 0 \<le> n \<and> n < 2 ^ 63))"

section \<open>The geo target of a location\<close>

text \<open>
  \<open>str.lower\<close> on the characters the model has: the letters \<open>A\<close> to \<open>Z\<close> move to
  \<open>a\<close> to \<open>z\<close>, every other 8-bit character stays.
\<close>

definition lower_char :: "char \<Rightarrow> char" where
  "lower_char c =
     (let n = (of_char c :: nat) in if 65 \<le> n \<and> n \<le> 90 then char_of (n + 32) else c)"

definition py_lower :: "string \<Rightarrow> string" where
  "py_lower s = map lower_char s"

text \<open>Lines 99 to 103 of \<open>search_keywords\<close>.\<close>

definition location_id :: "string \<Rightarrow> string" where
  "location_id location =
     (if py_lower location \<in> set [''uk'', ''united kingdom''] then ''2826''
      else if py_lower location \<in> set [''canada''] then ''2124''
      else ''2840'')"




section \<open>Logging\<close>

text \<open>
  One entry per call of the logger: its level and the message, kept as the template it
  fills with the values it formats.
\<close>

datatype log_level = INFO | WARNING | ERROR

datatype log_message =
    Searching_keywords "string list"
  | Location_and_max string int
  | Using_customer_id string
  | Fetching_data
  | Found_ideas nat
  | Api_error py_exn
  | Api_error_code string
  | Api_error_message string
  | Unexpected_error py_exn
  | No_results_to_summarize
  | Summary_header
  | Total_keywords nat
  | Avg_search_volume real
  | High_volume nat
  | Low_competition nat
  | Top_keywords_header
  | Top_keyword string int string
  | Results_saved string

type_synonym log_entry = "log_level \<times> log_message"

section \<open>The query client\<close>

text \<open>
  The request sent to the remote service, and the lazy sequence it answers with: each
  \<open>next\<close> on it yields an idea, ends the sequence, or raises.
\<close>

datatype network = GOOGLE_SEARCH

record request =
  req_customer_id :: string
  req_language :: string
  req_geo_target_constants :: "string list"
  req_keyword_plan_network :: network
  req_keyword_seed :: "string list"
  req_include_adult_keywords :: bool

datatype pager = Exhausted | Yield keyword_idea pager | Raises py_exn

text \<open>The object built by \<open>SimpleKeywordResearch.__init__\<close>.\<close>

record 'c keyword_research =
  client :: 'c
  customer_id :: string
  login_customer_id :: string

text \<open>
  The loop of lines 112 to 117: \<open>enumerate\<close> takes the next idea, then the loop breaks
  when its index has reached \<open>max_results\<close>, or normalizes the idea and appends it.
  The last component counts the ideas taken from the sequence.
\<close>

fun consume_ideas ::
  "int \<Rightarrow> int \<Rightarrow> pager \<Rightarrow> KeywordMetrics list \<Rightarrow> nat \<Rightarrow> (py_exn + KeywordMetrics list) \<times> nat"
where
  "consume_ideas max_results i Exhausted results pulled = (Inr results, pulled)"
| "consume_ideas max_results i (Raises ex) results pulled = (Inl ex, pulled)"
| "consume_ideas max_results i (Yield idea rest) results pulled =
     (if i \<ge> max_results then (Inr results, Suc pulled)
      else case extract_metrics idea of
             Inl ex \<Rightarrow> (Inl ex, Suc pulled)
           | Inr metrics \<Rightarrow>
               consume_ideas max_results (i + 1) rest (results @ [metrics]) (Suc pulled))"

text \<open>The two \<open>except\<close> clauses: log the exception, then re-raise it as it is.\<close>

fun log_exception :: "py_exn \<Rightarrow> log_entry list" where
  "log_exception (GoogleAdsException errors) =
     (ERROR, Api_error (GoogleAdsException errors))
     # concat (map (\<lambda>(code, message).
          [(ERROR, Api_error_code code), (ERROR, Api_error_message message)]) errors)"
| "log_exception ex = [(ERROR, Unexpected_error ex)]"

record search_run =
  outcome :: "py_exn + KeywordMetrics list"
  requests_sent :: "request list"
  ideas_pulled :: nat
  search_log :: "log_entry list"

definition build_request :: "'c keyword_research \<Rightarrow> string list \<Rightarrow> string \<Rightarrow> bool \<Rightarrow> request" where
  "build_request self keywords location include_adult_keywords =
     \<lparr>req_customer_id = customer_id self,
      req_language = ''languageConstants/1000'',
      req_geo_target_constants = [''geoTargetConstants/'' @ location_id location],
      req_keyword_plan_network = GOOGLE_SEARCH,
      req_keyword_seed = keywords,
      req_include_adult_keywords = include_adult_keywords\<rparr>"

text \<open>
  \<open>search_keywords\<close>; its first argument is \<open>generate_keyword_ideas\<close> of the remote
  service that \<open>self.client\<close> reaches.
\<close>

definition search_keywords ::
  "(request \<Rightarrow> py_exn + pager) \<Rightarrow> 'c keyword_research \<Rightarrow> string list \<Rightarrow> string \<Rightarrow> int \<Rightarrow> bool
     \<Rightarrow> search_run"
where
  "search_keywords generate_keyword_ideas self keywords location max_results
       include_adult_keywords =
     (let start = [(INFO, Searching_keywords keywords),
                   (INFO, Location_and_max location max_results),
                   (INFO, Using_customer_id (customer_id self))];
          request = build_request self keywords location include_adult_keywords;
          fetching = start @ [(INFO, Fetching_data)]
      in case generate_keyword_ideas request of
           Inl ex \<Rightarrow>
             \<lparr>outcome = Inl ex, requests_sent = [request], ideas_pulled = 0,
              search_log = fetching @ log_exception ex\<rparr>
         | Inr ideas \<Rightarrow>
             (case consume_ideas max_results 0 ideas [] 0 of
                (Inl ex, pulled) \<Rightarrow>
                  \<lparr>outcome = Inl ex, requests_sent = [request], ideas_pulled = pulled,
                   search_log = fetching @ log_exception ex\<rparr>
              | (Inr results, pulled) \<Rightarrow>
                  \<lparr>outcome = Inr results, requests_sent = [request], ideas_pulled = pulled,
                   search_log = fetching @ [(INFO, Found_ideas (length results))]\<rparr>))"

text \<open>A remote sequence that yields the given ideas and ends, or raises after them.\<close>

fun pager_of :: "keyword_idea list \<Rightarrow> pager" where
  "pager_of [] = Exhausted"
| "pager_of (idea # ideas) = Yield idea (pager_of ideas)"

fun pager_raising :: "keyword_idea list \<Rightarrow> py_exn \<Rightarrow> pager" where
  "pager_raising [] ex = Raises ex"
| "pager_raising (idea # ideas) ex = Yield idea (pager_raising ideas ex)"

definition int64_bids :: "keyword_idea \<Rightarrow> bool" where
  "int64_bids idea =
     (is_int64 (or_zero (low_top_of_page_bid_micros (keyword_idea_metrics idea)))
      \<and> is_int64 (or_zero (high_top_of_page_bid_micros (keyword_idea_metrics idea))))"

section \<open>The result reporter\<close>

text \<open>
  \<open>sorted(xs, key=f, reverse=True)\<close>: Python reverses the list, sorts it stably in
  ascending order of the key, and reverses the result, so that equal keys keep their
  original order.  \<open>sort_key\<close> is the stable ascending sort.
\<close>

definition py_sorted_reverse :: "('a \<Rightarrow> 'k::linorder) \<Rightarrow> 'a list \<Rightarrow> 'a list" where
  "py_sorted_reverse f xs = rev (sort_key f (rev xs))"

definition top_keywords :: "KeywordMetrics list \<Rightarrow> KeywordMetrics list" where
  "top_keywords results = take 3 (py_sorted_reverse search_volume results)"

definition top_keyword_line :: "KeywordMetrics \<Rightarrow> log_entry" where
  "top_keyword_line kw = (INFO, Top_keyword (keyword kw) (search_volume kw) (competition kw))"

text \<open>
  \<open>print_summary\<close> returns nothing; the model returns what it logged and the exception
  that ended it, if any.
\<close>

definition print_summary :: "KeywordMetrics list \<Rightarrow> log_entry list \<times> py_exn option" where
  "print_summary results =
     (if results = [] then ([(WARNING, No_results_to_summarize)], None)
      else
        let volumes = map search_volume results;
            high_vol = filter (\<lambda>r. search_volume r > 1000) results;
            low_comp = filter (\<lambda>r. competition r = ''LOW'') results;
            head = [(INFO, Summary_header), (INFO, Total_keywords (length results))]
        in case py_truediv (sum_list volumes) (int (length volumes)) of
             Inl ex \<Rightarrow> (head, Some ex)
           | Inr avg \<Rightarrow>
               (head @ [(INFO, Avg_search_volume avg),
                        (INFO, High_volume (length high_vol)),
                        (INFO, Low_competition (length low_comp)),
                        (INFO, Top_keywords_header)]
                     @ map top_keyword_line (top_keywords results), None))"

section \<open>Construction and authentication\<close>













section \<open>Export\<close>

text \<open>
  \<open>model_dump\<close> gives the fields of a record as a dictionary in declaration order.
\<close>

datatype py_value = Py_str string | Py_int int | Py_float real

definition model_dump :: "KeywordMetrics \<Rightarrow> (string \<times> py_value) list" where
  "model_dump r =
     [(''keyword'', Py_str (keyword r)),
      (''search_volume'', Py_int (search_volume r)),
      (''competition'', Py_str (competition r)),
      (''competition_index'', Py_float (competition_index r)),
      (''low_bid_usd'', Py_float (low_bid_usd r)),
      (''high_bid_usd'', Py_float (high_bid_usd r))]"

definition field_names :: "string list" where
  "field_names = [''keyword'', ''search_volume'', ''competition'', ''competition_index'',
     ''low_bid_usd'', ''high_bid_usd'']"

text \<open>
  \<open>pandas.DataFrame\<close> on a list of dictionaries: the columns are the keys in the order
  they first appear, so there is none when the list is empty; a row has the value of
  each column, or nothing where its dictionary lacks the key.  \<open>to_csv(index=False)\<close>
  writes the columns as the header line, then one line per row.
\<close>

fun add_keys :: "string list \<Rightarrow> string list \<Rightarrow> string list" where
  "add_keys cols [] = cols"
| "add_keys cols (k # ks) = add_keys (if k \<in> set cols then cols else cols @ [k]) ks"

record data_frame =
  columns :: "string list"
  frame_rows :: "py_value option list list"

definition DataFrame :: "(string \<times> py_value) list list \<Rightarrow> data_frame" where
  "DataFrame dicts =
     (let cols = foldl add_keys [] (map (map fst) dicts)
      in \<lparr>columns = cols, frame_rows = map (\<lambda>d. map (map_of d) cols) dicts\<rparr>)"

datatype file_content =
    Csv_file "string list" "py_value option list list"
  | Json_file "(string \<times> py_value) list list"

definition to_csv :: "data_frame \<Rightarrow> file_content" where
  "to_csv df = Csv_file (columns df) (frame_rows df)"

text \<open>
  \<open>datetime.now().strftime("%Y%m%d_%H%M%S")\<close>: the year in decimal, the other fields
  in two digits.
\<close>

record datetime =
  dt_year :: nat
  dt_month :: nat
  dt_day :: nat
  dt_hour :: nat
  dt_minute :: nat
  dt_second :: nat

definition digit_char :: "nat \<Rightarrow> char" where
  "digit_char n = char_of (48 + n)"

fun decimal :: "nat \<Rightarrow> string" where
  "decimal n = (if n < 10 then [digit_char n] else decimal (n div 10) @ [digit_char (n mod 10)])"

declare decimal.simps [simp del]

definition two_digits :: "nat \<Rightarrow> string" where
  "two_digits n = (if n < 10 then CHR ''0'' # decimal n else decimal n)"

definition strftime :: "datetime \<Rightarrow> string" where
  "strftime now =
     decimal (dt_year now) @ two_digits (dt_month now) @ two_digits (dt_day now) @ ''_''
     @ two_digits (dt_hour now) @ two_digits (dt_minute now) @ two_digits (dt_second now)"

text \<open>
  \<open>save_results\<close> returns the file name; the model also returns the files after the
  write and the line logged.  A write that fails is outside the model.
\<close>

definition save_results ::
  "datetime \<Rightarrow> (string \<rightharpoonup> file_content) \<Rightarrow> KeywordMetrics list \<Rightarrow> string
     \<Rightarrow> string \<times> (string \<rightharpoonup> file_content) \<times> log_entry list"
where
  "save_results now files results format =
     (let timestamp = strftime now
      in if py_lower format = ''csv''
         then let filename = ''keywords_'' @ timestamp @ ''.csv'';
                  df = DataFrame (map model_dump results)
              in (filename, files(filename \<mapsto> to_csv df), [(INFO, Results_saved filename)])
         else let filename = ''keywords_'' @ timestamp @ ''.json''
              in (filename, files(filename \<mapsto> Json_file (map model_dump results)),
                  [(INFO, Results_saved filename)]))"

text \<open>The pattern \<open>YYYYMMDD_HHMMSS\<close>, and the times \<open>datetime.now()\<close> can return.\<close>

definition is_digit :: "char \<Rightarrow> bool" where
  "is_digit c = (48 \<le> (of_char c :: nat) \<and> (of_char c :: nat) \<le> 57)"

definition is_timestamp :: "string \<Rightarrow> bool" where
  "is_timestamp s =
     (length s = 15 \<and> list_all is_digit (take 8 s) \<and> s ! 8 = CHR ''_''
      \<and> list_all is_digit (drop 9 s))"

definition valid_datetime :: "datetime \<Rightarrow> bool" where
  "valid_datetime now =
     (1000 \<le> dt_year now \<and> dt_year now \<le> 9999 \<and> 1 \<le> dt_month now \<and> dt_month now \<le> 12
      \<and> 1 \<le> dt_day now \<and> dt_day now \<le> 31 \<and> dt_hour now < 24 \<and> dt_minute now < 60
      \<and> dt_second now < 60)"

section \<open>Sample data\<close>

text \<open>
  The inputs the closed instances below are evaluated on: three ideas with the search
  volumes 500, 2000 and 100, and a research object for the customer 1234567890.
\<close>

definition sample_idea :: "string \<Rightarrow> int \<Rightarrow> keyword_idea" where
  "sample_idea t v =
     \<lparr>idea_text = t,
      keyword_idea_metrics =
        \<lparr>avg_monthly_searches = Some v, metrics_competition = Some LOW,
         metrics_competition_index = None,
         low_top_of_page_bid_micros = Some 2500000,
         high_top_of_page_bid_micros = None\<rparr>\<rparr>"

definition sample_ideas :: "keyword_idea list" where
  "sample_ideas = [sample_idea ''a'' 500, sample_idea ''b'' 2000, sample_idea ''c'' 100]"

definition sample_self :: "unit keyword_research" where
  "sample_self = \<lparr>client = (), customer_id = ''1234567890'', login_customer_id = []\<rparr>"

definition sample_metrics :: "string \<Rightarrow> int \<Rightarrow> KeywordMetrics" where
  "sample_metrics k v =
     \<lparr>keyword = k, search_volume = v, competition = ''LOW'', competition_index = 0,
      low_bid_usd = 5 / 2, high_bid_usd = 0\<rparr>"



definition sample_now :: datetime where
  "sample_now = \<lparr>dt_year = 2024, dt_month = 3, dt_day = 9, dt_hour = 14, dt_minute = 5,
     dt_second = 0\<rparr>"

section \<open>Verification: true division\<close>

lemma round_half_even_nonneg: "0 \<le> n \<Longrightarrow> 0 < d \<Longrightarrow> 0 \<le> round_half_even n d"
  by (simp add: round_half_even_def Let_def pos_imp_zdiv_nonneg_iff)

lemma bit_length_upper: "n < 2 ^ bit_length n"
proof (induction n rule: bit_length.induct)
  case (1 n)
  show ?case
  proof (cases "n = 0")
    case True
    then show ?thesis by (simp add: bit_length.simps)
  next
    case False
    then have "n div 2 < 2 ^ bit_length (n div 2)" by (rule "1.IH")
    then have "n < 2 * 2 ^ bit_length (n div 2)" by linarith
    then show ?thesis using False by (subst bit_length.simps) simp
  qed
qed

lemma bit_length_lower: "0 < n \<Longrightarrow> 2 ^ (bit_length n - 1) \<le> n"
proof (induction n rule: bit_length.induct)
  case (1 n)
  show ?case
  proof (cases "n div 2 = 0")
    case True
    then have "n = 1" using "1.prems" by linarith
    then show ?thesis by (simp add: bit_length.simps)
  next
    case False
    then have pos: "0 < n div 2" by simp
    have ih: "2 ^ (bit_length (n div 2) - 1) \<le> n div 2"
      using "1.IH" "1.prems" pos by simp
    have bl: "0 < bit_length (n div 2)" using pos by (subst bit_length.simps) simp
    have "bit_length n = Suc (bit_length (n div 2))"
      using "1.prems" by (subst bit_length.simps) simp
    then have "2 ^ (bit_length n - 1) = 2 * 2 ^ (bit_length (n div 2) - 1)"
      using bl by (cases "bit_length (n div 2)") simp_all
    also have "\<dots> \<le> 2 * (n div 2)" using ih by simp
    also have "\<dots> \<le> n" by simp
    finally show ?thesis .
  qed
qed

lemma floor_log2_lower:
  assumes "0 < n" "0 < d" "0 \<le> floor_log2 n d"
  shows "d * 2 ^ nat (floor_log2 n d) \<le> n"
proof -
  define bn where "bn = bit_length (nat n)"
  define bd where "bd = bit_length (nat d)"
  define k where "k = int bn - int bd"
  have fl_eq: "floor_log2 n d =
      (if (if 0 \<le> k then d * 2 ^ nat k \<le> n else d \<le> n * 2 ^ nat (- k)) then k else k - 1)"
    unfolding floor_log2_def Let_def k_def bn_def bd_def by (rule refl)
  show ?thesis
  proof (cases "if 0 \<le> k then d * 2 ^ nat k \<le> n else d \<le> n * 2 ^ nat (- k)")
    case True
    have fl: "floor_log2 n d = k" unfolding fl_eq using True by (rule if_P)
    with assms(3) have "0 \<le> k" by simp
    with True show ?thesis by (simp add: fl)
  next
    case False
    have fl: "floor_log2 n d = k - 1" unfolding fl_eq using False by (rule if_not_P)
    with assms(3) have k1: "1 \<le> k" by simp
    then have bnd: "bd + nat (k - 1) = bn - 1" by (simp add: k_def nat_diff_distrib)
    have "nat d < 2 ^ bd" unfolding bd_def by (rule bit_length_upper)
    then have "d < 2 ^ bd" using assms(2) by (simp add: nat_less_iff)
    then have "d * 2 ^ nat (k - 1) < 2 ^ bd * 2 ^ nat (k - 1)" by simp
    also have "\<dots> = (2::int) ^ (bn - 1)" by (simp add: power_add [symmetric] bnd)
    also have "\<dots> \<le> n"
    proof -
      have "2 ^ (bn - 1) \<le> nat n" unfolding bn_def using assms(1) by (intro bit_length_lower) simp
      then have "int (2 ^ (bn - 1)) \<le> int (nat n)" by (simp only: of_nat_le_iff)
      then show ?thesis using assms(1) by simp
    qed
    finally show ?thesis by (simp add: fl)
  qed
qed

lemma round_half_even_real:
  assumes "0 \<le> n" "0 < d"
  shows "real_of_int (round_half_even n d) \<le> of_int n / of_int d + 1"
proof -
  have "round_half_even n d \<le> n div d + 1" by (simp add: round_half_even_def Let_def)
  then have "real_of_int (round_half_even n d) \<le> of_int (n div d + 1)" by (simp only: of_int_le_iff)
  also have "\<dots> = of_int (n div d) + 1" by simp
  also have "\<dots> \<le> of_int n / of_int d + 1" by (simp add: real_of_int_div4)
  finally show ?thesis .
qed

lemma binary64_nearest_bounds:
  assumes "0 < n" "0 < d"
  shows "0 \<le> float_value (binary64_nearest n d)"
    and "float_value (binary64_nearest n d) \<le> 2 * (of_int n / of_int d) + 1"
proof -
  define e where "e = max (floor_log2 n d - 52) (- 1074)"
  have q: "0 \<le> real_of_int n / of_int d" using assms by simp
  show "0 \<le> float_value (binary64_nearest n d)"
    using assms by (simp add: binary64_nearest_def float_value_def Let_def round_half_even_nonneg)
  show "float_value (binary64_nearest n d) \<le> 2 * (of_int n / of_int d) + 1"
  proof (cases "0 \<le> e")
    case True
    define k where "k = nat e"
    have fv: "float_value (binary64_nearest n d) = of_int (round_half_even n (d * 2 ^ k)) * 2 ^ k"
      using True by (simp add: binary64_nearest_def float_value_def Let_def e_def [symmetric] k_def)
    have efl: "e = floor_log2 n d - 52" using True by (simp add: e_def max_def split: if_splits)
    then have fl0: "0 \<le> floor_log2 n d" using True by simp
    have "k \<le> nat (floor_log2 n d)" using efl by (simp add: k_def)
    then have "d * 2 ^ k \<le> d * 2 ^ nat (floor_log2 n d)"
      using assms(2) by (simp add: power_increasing)
    also have "\<dots> \<le> n" by (rule floor_log2_lower [OF assms fl0])
    finally have "real_of_int (d * 2 ^ k) \<le> of_int n" by (simp only: of_int_le_iff)
    then have pk: "2 ^ k \<le> real_of_int n / of_int d"
      using assms(2) by (simp add: le_divide_eq mult.commute)
    have "real_of_int (round_half_even n (d * 2 ^ k)) \<le> of_int n / of_int (d * 2 ^ k) + 1"
      using assms by (intro round_half_even_real) simp_all
    then have "real_of_int (round_half_even n (d * 2 ^ k)) * 2 ^ k
        \<le> (of_int n / of_int (d * 2 ^ k) + 1) * 2 ^ k"
      by (simp add: mult_right_mono)
    also have "\<dots> = of_int n / of_int d + 2 ^ k" by (simp add: field_simps)
    also have "\<dots> \<le> 2 * (of_int n / of_int d) + 1" using pk by simp
    finally show ?thesis by (simp add: fv)
  next
    case False
    define k where "k = nat (- e)"
    have fv: "float_value (binary64_nearest n d) = of_int (round_half_even (n * 2 ^ k) d) / 2 ^ k"
      using False by (simp add: binary64_nearest_def float_value_def Let_def e_def [symmetric] k_def)
    have "real_of_int (round_half_even (n * 2 ^ k) d) \<le> of_int (n * 2 ^ k) / of_int d + 1"
      using assms by (intro round_half_even_real) simp_all
    then have "real_of_int (round_half_even (n * 2 ^ k) d) / 2 ^ k
        \<le> (of_int (n * 2 ^ k) / of_int d + 1) / 2 ^ k"
      by (simp add: divide_right_mono)
    also have "\<dots> = of_int n / of_int d + 1 / 2 ^ k" by (simp add: field_simps)
    also have "\<dots> \<le> of_int n / of_int d + 1" by (simp add: divide_le_eq)
    also have "\<dots> \<le> 2 * (of_int n / of_int d) + 1" using q by simp
    finally show ?thesis by (simp add: fv)
  qed
qed

lemma binary64_div_abs:
  assumes "0 < d"
  shows "\<bar>binary64_div a d\<bar> \<le> 2 * (of_int \<bar>a\<bar> / of_int d) + 1"
proof (cases "a = 0")
  case True
  then show ?thesis by (simp add: binary64_div_def)
next
  case False
  then have a: "0 < \<bar>a\<bar>" by simp
  have d: "\<bar>d\<bar> = d" using assms by simp
  note b = binary64_nearest_bounds [OF a assms]
  have "\<bar>binary64_div a d\<bar> = float_value (binary64_nearest \<bar>a\<bar> d)"
    using False b(1) by (simp add: binary64_div_def Let_def d)
  then show ?thesis using b(2) by simp
qed

lemma sum_list_int64:
  "list_all is_int64 vs \<Longrightarrow> \<bar>sum_list vs\<bar> \<le> int (length vs) * 2 ^ 63"
proof (induction vs)
  case Nil
  then show ?case by simp
next
  case (Cons v vs)
  from Cons.prems have "- (2 ^ 63) \<le> v" "v < 2 ^ 63" by (simp_all add: is_int64_def)
  then have "\<bar>v\<bar> \<le> 2 ^ 63" by linarith
  moreover have "\<bar>sum_list vs\<bar> \<le> int (length vs) * 2 ^ 63" using Cons by simp
  ultimately show ?case by (simp add: algebra_simps)
qed

lemma py_truediv_mean:
  assumes "vs \<noteq> []" "list_all is_int64 vs"
  shows "py_truediv (sum_list vs) (int (length vs)) = Inr (binary64_div (sum_list vs) (int (length vs)))"
proof -
  have l: "0 < int (length vs)" using assms(1) by simp
  have "real_of_int \<bar>sum_list vs\<bar> \<le> of_int (int (length vs) * 2 ^ 63)"
    using sum_list_int64 [OF assms(2)] by (simp only: of_int_le_iff)
  then have "real_of_int \<bar>sum_list vs\<bar> / of_int (int (length vs)) \<le> 2 ^ 63"
    using l by (simp add: divide_le_eq mult.commute)
  then have "\<bar>binary64_div (sum_list vs) (int (length vs))\<bar> \<le> 2 * 2 ^ 63 + 1"
    using binary64_div_abs [OF l, of "sum_list vs"] by linarith
  then have "\<bar>binary64_div (sum_list vs) (int (length vs))\<bar> < 2 ^ 1024"
    by (rule le_less_trans) simp
  then show ?thesis using l by (simp add: py_truediv_def)
qed

lemma binary64_div_nonneg:
  assumes "0 \<le> n" "0 < d"
  shows "0 \<le> binary64_div n d"
proof (cases "n = 0")
  case True
  then show ?thesis by (simp add: binary64_div_def)
next
  case False
  then have n: "0 < n" using assms(1) by simp
  show ?thesis
    using binary64_nearest_bounds(1) [OF n assms(2)] n assms(2)
    by (simp add: binary64_div_def Let_def)
qed

lemma py_truediv_micros:
  assumes "is_int64 n"
  shows "py_truediv n 1000000 = Inr (binary64_div n 1000000)"
proof -
  have "real_of_int \<bar>n\<bar> \<le> 2 ^ 63"
  proof -
    have "\<bar>n\<bar> \<le> 2 ^ 63" using assms unfolding is_int64_def by linarith
    then have "real_of_int \<bar>n\<bar> \<le> of_int (2 ^ 63)" by (simp only: of_int_le_iff)
    then show ?thesis by simp
  qed
  then have "\<bar>binary64_div n 1000000\<bar> \<le> 2 * 2 ^ 63 + 1"
    using binary64_div_abs [of 1000000 n] by simp
  then have "\<bar>binary64_div n 1000000\<bar> < 2 ^ 1024" by (rule le_less_trans) simp
  then show ?thesis by (simp add: py_truediv_def)
qed

lemma binary64_div_example: "binary64_div 2500000 1000000 = 5 / 2"
proof -
  have "binary64_nearest 2500000 1000000 = (5629499534213120, - 51)"
    by (simp add: binary64_nearest_def floor_log2_def bit_length.simps round_half_even_def Let_def)
  then show ?thesis by (simp add: binary64_div_def float_value_def)
qed

text \<open>
  One micro-unit: the quotient is not a binary64, and the result is the number Python
  prints as \<open>1e-06\<close>, \<open>0x1.0c6f7a0b5ed8dp-20\<close>.
\<close>

lemma binary64_div_one_micro: "binary64_div 1 1000000 = 4722366482869645 / 2 ^ 72"
proof -
  have "binary64_nearest 1 1000000 = (4722366482869645, - 72)"
    by (simp add: binary64_nearest_def floor_log2_def bit_length.simps round_half_even_def Let_def)
  then show ?thesis by (simp add: binary64_div_def float_value_def)
qed

section \<open>Verification: the metrics normalizer\<close>

lemma or_zero_eq: "or_zero x = (case x of None \<Rightarrow> 0 | Some v \<Rightarrow> v)"
  by (simp add: or_zero_def split: option.split)

lemma extract_metrics_int64:
  assumes "is_int64 (or_zero (low_top_of_page_bid_micros (keyword_idea_metrics idea)))"
    and "is_int64 (or_zero (high_top_of_page_bid_micros (keyword_idea_metrics idea)))"
  shows "extract_metrics idea =
     Inr \<lparr>keyword = idea_text idea,
          search_volume = or_zero (avg_monthly_searches (keyword_idea_metrics idea)),
          competition = (case metrics_competition (keyword_idea_metrics idea) of
                           None \<Rightarrow> ''UNKNOWN''
                         | Some c \<Rightarrow> if c \<noteq> UNSPECIFIED then comp_name c else ''UNKNOWN''),
          competition_index = or_zero (metrics_competition_index (keyword_idea_metrics idea)),
          low_bid_usd =
            binary64_div (or_zero (low_top_of_page_bid_micros (keyword_idea_metrics idea))) 1000000,
          high_bid_usd =
            binary64_div (or_zero (high_top_of_page_bid_micros (keyword_idea_metrics idea))) 1000000\<rparr>"
  by (simp add: extract_metrics_def Let_def py_truediv_micros [OF assms(1)]
      py_truediv_micros [OF assms(2)])

text \<open>
  C3.  For every raw idea record whose bid fields are 64-bit integers, the normalizer
  returns a \<open>KeywordMetrics\<close> in which a missing or null search volume is 0, a missing
  or null competition is \<open>UNKNOWN\<close>, a missing or null competition index is 0.0, and each
  bid is the binary64 quotient of its micro-unit integer (0 when absent) by 1,000,000,
  with no further rounding; 2,500,000 micros give exactly 2.5.
\<close>

theorem extract_metrics_normalizes:
  assumes "is_int64 (or_zero (low_top_of_page_bid_micros (keyword_idea_metrics idea)))"
    and "is_int64 (or_zero (high_top_of_page_bid_micros (keyword_idea_metrics idea)))"
  shows "extract_metrics idea =
     Inr \<lparr>keyword = idea_text idea,
          search_volume = (case avg_monthly_searches (keyword_idea_metrics idea) of
                             None \<Rightarrow> 0 | Some v \<Rightarrow> v),
          competition = (case metrics_competition (keyword_idea_metrics idea) of
                           None \<Rightarrow> ''UNKNOWN''
                         | Some c \<Rightarrow> if c = UNSPECIFIED then ''UNKNOWN'' else comp_name c),
          competition_index = (case metrics_competition_index (keyword_idea_metrics idea) of
                                 None \<Rightarrow> 0 | Some x \<Rightarrow> x),
          low_bid_usd =
            binary64_div (case low_top_of_page_bid_micros (keyword_idea_metrics idea) of
                            None \<Rightarrow> 0 | Some n \<Rightarrow> n) 1000000,
          high_bid_usd =
            binary64_div (case high_top_of_page_bid_micros (keyword_idea_metrics idea) of
                            None \<Rightarrow> 0 | Some n \<Rightarrow> n) 1000000\<rparr>
   \<and> binary64_div 2500000 1000000 = 5 / 2"
proof -
  have "(case metrics_competition (keyword_idea_metrics idea) of
           None \<Rightarrow> ''UNKNOWN''
         | Some c \<Rightarrow> if c \<noteq> UNSPECIFIED then comp_name c else ''UNKNOWN'')
      = (case metrics_competition (keyword_idea_metrics idea) of
           None \<Rightarrow> ''UNKNOWN''
         | Some c \<Rightarrow> if c = UNSPECIFIED then ''UNKNOWN'' else comp_name c)"
    by (simp split: option.split)
  then show ?thesis
    using extract_metrics_int64 [OF assms] binary64_div_example
    by (simp add: or_zero_eq)
qed

theorem extract_metrics_normalizes_witness:
  "is_int64 (or_zero (Some 2500000)) \<and> is_int64 (or_zero None)
   \<and> extract_metrics
        \<lparr>idea_text = ''python course'',
         keyword_idea_metrics =
           \<lparr>avg_monthly_searches = None, metrics_competition = None,
            metrics_competition_index = None,
            low_top_of_page_bid_micros = Some 2500000,
            high_top_of_page_bid_micros = None\<rparr>\<rparr>
     = Inr \<lparr>keyword = ''python course'', search_volume = 0, competition = ''UNKNOWN'',
            competition_index = 0, low_bid_usd = 5 / 2, high_bid_usd = 0\<rparr>"
proof -
  have a: "is_int64 (or_zero (Some 2500000))" and b: "is_int64 (or_zero None)"
    by (simp_all add: is_int64_def or_zero_def)
  show ?thesis
    using a b extract_metrics_normalizes
      [of "\<lparr>idea_text = ''python course'',
            keyword_idea_metrics =
              \<lparr>avg_monthly_searches = None, metrics_competition = None,
               metrics_competition_index = None,
               low_top_of_page_bid_micros = Some 2500000,
               high_top_of_page_bid_micros = None\<rparr>\<rparr>"]
    by (simp add: binary64_div_def)
qed

text \<open>
  C4.  For every well-formed raw idea record (non-negative 64-bit search count and bid
  micro-units, a competition index between 0 and 1), normalization returns a
  \<open>KeywordMetrics\<close> whose search volume and two bids are non-negative and whose
  competition index lies between 0 and 1.
\<close>

theorem extract_metrics_ranges:
  assumes "well_formed_idea idea"
  shows "\<exists>k. extract_metrics idea = Inr k
           \<and> 0 \<le> search_volume k \<and> 0 \<le> low_bid_usd k \<and> 0 \<le> high_bid_usd k
           \<and> 0 \<le> competition_index k \<and> competition_index k \<le> 1"
proof -
  let ?m = "keyword_idea_metrics idea"
  have lo: "0 \<le> or_zero (low_top_of_page_bid_micros ?m)"
       "or_zero (low_top_of_page_bid_micros ?m) < 2 ^ 63"
    and hi: "0 \<le> or_zero (high_top_of_page_bid_micros ?m)"
       "or_zero (high_top_of_page_bid_micros ?m) < 2 ^ 63"
    and vol: "0 \<le> or_zero (avg_monthly_searches ?m)"
    and ci: "0 \<le> or_zero (metrics_competition_index ?m)"
       "or_zero (metrics_competition_index ?m) \<le> 1"
    using assms
    by (simp_all add: well_formed_idea_def Let_def or_zero_eq split: option.splits)
  have "is_int64 (or_zero (low_top_of_page_bid_micros ?m))"
    and "is_int64 (or_zero (high_top_of_page_bid_micros ?m))"
    using lo hi by (simp_all add: is_int64_def)
  note eq = extract_metrics_int64 [OF this]
  show ?thesis
    using vol ci binary64_div_nonneg [OF lo(1)] binary64_div_nonneg [OF hi(1)]
    by (simp add: eq)
qed

theorem extract_metrics_ranges_witness:
  "well_formed_idea
     \<lparr>idea_text = ''learn python'',
      keyword_idea_metrics =
        \<lparr>avg_monthly_searches = Some 2000, metrics_competition = Some LOW,
         metrics_competition_index = Some (1 / 4),
         low_top_of_page_bid_micros = Some 1, high_top_of_page_bid_micros = Some 2500000\<rparr>\<rparr>
   \<and> (\<exists>k. extract_metrics
          \<lparr>idea_text = ''learn python'',
           keyword_idea_metrics =
             \<lparr>avg_monthly_searches = Some 2000, metrics_competition = Some LOW,
              metrics_competition_index = Some (1 / 4),
              low_top_of_page_bid_micros = Some 1,
              high_top_of_page_bid_micros = Some 2500000\<rparr>\<rparr> = Inr k
        \<and> 0 \<le> search_volume k \<and> 0 \<le> low_bid_usd k \<and> 0 \<le> high_bid_usd k
        \<and> 0 \<le> competition_index k \<and> competition_index k \<le> 1)"
proof -
  have wf: "well_formed_idea
     \<lparr>idea_text = ''learn python'',
      keyword_idea_metrics =
        \<lparr>avg_monthly_searches = Some 2000, metrics_competition = Some LOW,
         metrics_competition_index = Some (1 / 4),
         low_top_of_page_bid_micros = Some 1, high_top_of_page_bid_micros = Some 2500000\<rparr>\<rparr>"
    by (simp add: well_formed_idea_def)
  from wf extract_metrics_ranges [OF wf] show ?thesis by (rule conjI)
qed

section \<open>Verification: the geo target\<close>







section \<open>Verification: the query client\<close>

lemma extract_metrics_Inr:
  assumes "int64_bids idea"
  shows "extract_metrics idea = Inr (projr (extract_metrics idea))"
proof -
  have "\<exists>k. extract_metrics idea = Inr k"
    using assms by (simp add: extract_metrics_def Let_def int64_bids_def py_truediv_micros)
  then show ?thesis by auto
qed

lemma consume_ideas_pager_of:
  assumes "list_all int64_bids ideas"
  shows "consume_ideas mx i (pager_of ideas) results pulled =
     (Inr (results @ map (\<lambda>idea. projr (extract_metrics idea)) (take (nat (mx - i)) ideas)),
      pulled + min (length ideas) (nat (mx - i) + 1))"
  using assms
proof (induction ideas arbitrary: i results pulled)
  case Nil
  then show ?case by simp
next
  case (Cons idea ideas)
  then have "int64_bids idea" and rest: "list_all int64_bids ideas" by simp_all
  then have ok: "extract_metrics idea = Inr (projr (extract_metrics idea))"
    by (intro extract_metrics_Inr)
  show ?case
  proof (cases "i \<ge> mx")
    case True
    then show ?thesis by simp
  next
    case False
    then have n: "nat (mx - i) = Suc (nat (mx - (i + 1)))" by simp
    have "consume_ideas mx i (pager_of (idea # ideas)) results pulled =
        consume_ideas mx (i + 1) (pager_of ideas)
          (results @ [projr (extract_metrics idea)]) (Suc pulled)"
      using False by (subst pager_of.simps, subst consume_ideas.simps, subst ok) simp
    also note Cons.IH [OF rest]
    finally show ?thesis by (simp add: n)
  qed
qed

lemma consume_ideas_pager_raising:
  assumes "list_all int64_bids ideas" "i + int (length ideas) \<le> mx"
  shows "\<exists>n. consume_ideas mx i (pager_raising ideas ex) results pulled = (Inl ex, n)"
  using assms
proof (induction ideas arbitrary: i results pulled)
  case Nil
  then show ?case by simp
next
  case (Cons idea ideas)
  then have "int64_bids idea" and rest: "list_all int64_bids ideas"
    and len: "(i + 1) + int (length ideas) \<le> mx" and i: "\<not> i \<ge> mx"
    by simp_all
  then have ok: "extract_metrics idea = Inr (projr (extract_metrics idea))"
    by (intro extract_metrics_Inr)
  have "consume_ideas mx i (pager_raising (idea # ideas) ex) results pulled =
        consume_ideas mx (i + 1) (pager_raising ideas ex)
          (results @ [projr (extract_metrics idea)]) (Suc pulled)"
    using i by (subst pager_raising.simps, subst consume_ideas.simps, subst ok) simp
  then show ?case using Cons.IH [OF rest len] by simp
qed

lemma map_Inr_projr:
  "list_all int64_bids xs \<Longrightarrow>
     map Inr (map (\<lambda>idea. projr (extract_metrics idea)) xs) = map extract_metrics xs"
proof (induction xs)
  case Nil
  then show ?case by simp
next
  case (Cons x xs)
  then have "int64_bids x" by simp
  then have "extract_metrics x = Inr (projr (extract_metrics x))" by (rule extract_metrics_Inr)
  then have "Inr (projr (extract_metrics x)) = extract_metrics x" by (rule sym)
  then show ?case using Cons by simp
qed

lemma search_keywords_pager_of:
  assumes "0 < max_results" "list_all int64_bids ideas"
  shows "search_keywords (\<lambda>request. Inr (pager_of ideas)) self keywords location max_results adult =
     \<lparr>outcome = Inr (map (\<lambda>idea. projr (extract_metrics idea)) (take (nat max_results) ideas)),
      requests_sent = [build_request self keywords location adult],
      ideas_pulled = min (length ideas) (nat max_results + 1),
      search_log =
        [(INFO, Searching_keywords keywords), (INFO, Location_and_max location max_results),
         (INFO, Using_customer_id (customer_id self)), (INFO, Fetching_data),
         (INFO, Found_ideas (min (length ideas) (nat max_results)))]\<rparr>"
  by (simp add: search_keywords_def Let_def consume_ideas_pager_of [OF assms(2)] min.commute)

lemma sample_ideas_int64: "list_all int64_bids sample_ideas"
  by (simp add: sample_ideas_def sample_idea_def int64_bids_def is_int64_def or_zero_def)

lemma length_sample_ideas: "length sample_ideas = 3"
  by (simp add: sample_ideas_def)

text \<open>
  C1, as amended.  For every finite remote sequence of ideas (with 64-bit bid fields) and
  every positive \<open>max_results\<close>, \<open>search_keywords\<close> sends one request and returns the
  normalizations of the first \<open>max_results\<close> ideas, in the order of the remote sequence
  and at most \<open>max_results\<close> of them.  It takes \<open>max_results + 1\<close> ideas from a
  sequence that has more: the idea at index \<open>max_results\<close> is taken before the loop
  breaks, and is dropped.
\<close>

theorem search_keywords_cap:
  assumes "0 < max_results" "list_all int64_bids ideas"
  shows "\<exists>results.
      outcome (search_keywords (\<lambda>request. Inr (pager_of ideas)) self keywords location
                 max_results adult) = Inr results
    \<and> map Inr results = map extract_metrics (take (nat max_results) ideas)
    \<and> length results \<le> nat max_results
    \<and> ideas_pulled (search_keywords (\<lambda>request. Inr (pager_of ideas)) self keywords location
                 max_results adult) = min (length ideas) (nat max_results + 1)
    \<and> requests_sent (search_keywords (\<lambda>request. Inr (pager_of ideas)) self keywords location
                 max_results adult) = [build_request self keywords location adult]"
proof -
  have "list_all int64_bids (take (nat max_results) ideas)"
    using assms(2) by (auto simp: list_all_iff dest: in_set_takeD)
  then have "map Inr (map (\<lambda>idea. projr (extract_metrics idea)) (take (nat max_results) ideas))
      = map extract_metrics (take (nat max_results) ideas)"
    by (rule map_Inr_projr)
  then show ?thesis
    by (simp add: search_keywords_pager_of [OF assms])
qed

theorem search_keywords_cap_witness:
  "(0::int) < 2 \<and> list_all int64_bids sample_ideas
   \<and> (\<exists>results.
        outcome (search_keywords (\<lambda>request. Inr (pager_of sample_ideas)) sample_self
                   [''python programming''] ''Canada'' 2 False) = Inr results
      \<and> map Inr results = map extract_metrics (take (nat 2) sample_ideas)
      \<and> length results \<le> nat 2
      \<and> ideas_pulled (search_keywords (\<lambda>request. Inr (pager_of sample_ideas)) sample_self
                   [''python programming''] ''Canada'' 2 False) = 3)"
proof -
  have pos: "(0::int) < 2" by simp
  have three: "min (length sample_ideas) (nat 2 + 1) = 3" by (simp add: length_sample_ideas)
  from search_keywords_cap [OF pos sample_ideas_int64, of sample_self
      "[''python programming'']" "''Canada''" False]
  have "\<exists>results.
        outcome (search_keywords (\<lambda>request. Inr (pager_of sample_ideas)) sample_self
                   [''python programming''] ''Canada'' 2 False) = Inr results
      \<and> map Inr results = map extract_metrics (take (nat 2) sample_ideas)
      \<and> length results \<le> nat 2
      \<and> ideas_pulled (search_keywords (\<lambda>request. Inr (pager_of sample_ideas)) sample_self
                   [''python programming''] ''Canada'' 2 False) = 3"
    unfolding three by blast
  with pos sample_ideas_int64 show ?thesis by blast
qed

text \<open>
  The claim C1 as it is written bounds the ideas taken from the remote sequence by
  \<open>max_results\<close>; with three ideas and \<open>max_results = 2\<close> the loop takes all three.
\<close>

theorem search_keywords_pulls_one_more:
  "\<not> ideas_pulled (search_keywords (\<lambda>request. Inr (pager_of sample_ideas)) sample_self
        [''python programming''] ''Canada'' 2 False) \<le> nat 2"
proof -
  have "ideas_pulled (search_keywords (\<lambda>request. Inr (pager_of sample_ideas)) sample_self
        [''python programming''] ''Canada'' 2 False) = 3"
    by (simp add: search_keywords_pager_of [OF _ sample_ideas_int64] length_sample_ideas)
  then show ?thesis by simp
qed

text \<open>
  C7.  When the remote call fails, at once or while the ideas are read, \<open>search_keywords\<close>
  raises the very exception it caught (a \<open>GoogleAdsException\<close> with its list of error
  codes and messages, any other exception as it is), after logging it; it has sent one
  request, and it returns no results, also when some ideas had been normalized already.
\<close>

theorem search_keywords_failure:
  "(generate (build_request self keywords location adult) = Inl ex \<longrightarrow>
      outcome (search_keywords generate self keywords location max_results adult) = Inl ex
    \<and> ideas_pulled (search_keywords generate self keywords location max_results adult) = 0)
   \<and> (generate (build_request self keywords location adult) = Inr (pager_raising ideas ex)
      \<and> list_all int64_bids ideas \<and> int (length ideas) \<le> max_results \<longrightarrow>
      outcome (search_keywords generate self keywords location max_results adult) = Inl ex)
   \<and> requests_sent (search_keywords generate self keywords location max_results adult)
        = [build_request self keywords location adult]
   \<and> (\<forall>e. outcome (search_keywords generate self keywords location max_results adult) = Inl e
        \<longrightarrow> search_log (search_keywords generate self keywords location max_results adult)
            = [(INFO, Searching_keywords keywords), (INFO, Location_and_max location max_results),
               (INFO, Using_customer_id (customer_id self)), (INFO, Fetching_data)]
              @ log_exception e)"
proof -
  let ?run = "search_keywords generate self keywords location max_results adult"
  let ?req = "build_request self keywords location adult"
  have a: "generate ?req = Inl ex \<longrightarrow> outcome ?run = Inl ex \<and> ideas_pulled ?run = 0"
    by (simp add: search_keywords_def Let_def)
  have b: "generate ?req = Inr (pager_raising ideas ex)
      \<and> list_all int64_bids ideas \<and> int (length ideas) \<le> max_results \<longrightarrow> outcome ?run = Inl ex"
  proof (intro impI, elim conjE)
    assume g: "generate ?req = Inr (pager_raising ideas ex)"
      and wf: "list_all int64_bids ideas" and len: "int (length ideas) \<le> max_results"
    from len have "0 + int (length ideas) \<le> max_results" by simp
    from consume_ideas_pager_raising [OF wf this, of ex "[]" 0]
    obtain n where "consume_ideas max_results 0 (pager_raising ideas ex) [] 0 = (Inl ex, n)"
      by blast
    then show "outcome ?run = Inl ex" by (simp add: search_keywords_def Let_def g)
  qed
  have c: "requests_sent ?run = [?req]"
    by (simp add: search_keywords_def Let_def split: sum.split prod.split)
  have d: "\<forall>e. outcome ?run = Inl e \<longrightarrow> search_log ?run
      = [(INFO, Searching_keywords keywords), (INFO, Location_and_max location max_results),
         (INFO, Using_customer_id (customer_id self)), (INFO, Fetching_data)] @ log_exception e"
    by (simp add: search_keywords_def Let_def split: sum.split prod.split)
  from a b c d show ?thesis by blast
qed

theorem search_keywords_failure_witness:
  "outcome (search_keywords (\<lambda>request. Inl (GoogleAdsException [(''QUOTA_ERROR'', ''Too many requests'')]))
      sample_self [''python programming''] ''Canada'' 50 False)
     = Inl (GoogleAdsException [(''QUOTA_ERROR'', ''Too many requests'')])
   \<and> outcome (search_keywords (\<lambda>request. Inr (pager_raising sample_ideas (OtherException ''connection reset'')))
      sample_self [''python programming''] ''Canada'' 50 False)
     = Inl (OtherException ''connection reset'')
   \<and> search_log (search_keywords (\<lambda>request. Inl (GoogleAdsException [(''QUOTA_ERROR'', ''Too many requests'')]))
      sample_self [''python programming''] ''Canada'' 50 False)
     = [(INFO, Searching_keywords [''python programming'']), (INFO, Location_and_max ''Canada'' 50),
        (INFO, Using_customer_id ''1234567890''), (INFO, Fetching_data),
        (ERROR, Api_error (GoogleAdsException [(''QUOTA_ERROR'', ''Too many requests'')])),
        (ERROR, Api_error_code ''QUOTA_ERROR''), (ERROR, Api_error_message ''Too many requests'')]"
proof -
  have len: "int (length sample_ideas) \<le> 50" by (simp add: length_sample_ideas)
  have cid: "customer_id sample_self = ''1234567890''" by (simp add: sample_self_def)
  show ?thesis
    using search_keywords_failure
        [of "\<lambda>request. Inl (GoogleAdsException [(''QUOTA_ERROR'', ''Too many requests'')])"
          sample_self "[''python programming'']" "''Canada''" False
          "GoogleAdsException [(''QUOTA_ERROR'', ''Too many requests'')]" 50 "[]"]
      search_keywords_failure
        [of "\<lambda>request. Inr (pager_raising sample_ideas (OtherException ''connection reset''))"
          sample_self "[''python programming'']" "''Canada''" False
          "OtherException ''connection reset''" 50 sample_ideas]
      len sample_ideas_int64 cid
    by simp
qed

section \<open>Verification: the result reporter\<close>

lemma py_sorted_reverse_stable:
  "filter (\<lambda>y. f y = k) (py_sorted_reverse f xs) = filter (\<lambda>y. f y = k) xs"
proof -
  have "filter (\<lambda>y. f y = k) (py_sorted_reverse f xs)
      = rev (filter (\<lambda>y. f y = k) (sort_key f (rev xs)))"
    by (simp add: py_sorted_reverse_def rev_filter)
  also have "\<dots> = rev (filter (\<lambda>y. f y = k) (rev xs))" by (simp only: sort_key_stable)
  also have "\<dots> = filter (\<lambda>y. f y = k) xs" by (simp add: rev_filter [symmetric])
  finally show ?thesis .
qed

lemma py_sorted_reverse_descending:
  "sorted_wrt (\<lambda>a b. f b \<le> f a) (py_sorted_reverse f xs)"
proof -
  have "sorted (map f (sort_key f (rev xs)))" by (rule sorted_sort_key)
  then have "sorted_wrt (\<lambda>a b. f a \<le> f b) (sort_key f (rev xs))" by (simp add: sorted_map)
  then show ?thesis by (simp add: py_sorted_reverse_def sorted_wrt_rev)
qed

lemma mset_py_sorted_reverse: "mset (py_sorted_reverse f xs) = mset xs"
  by (simp add: py_sorted_reverse_def)

lemma print_summary_nonempty:
  assumes "results \<noteq> []" "list_all (\<lambda>r. is_int64 (search_volume r)) results"
  shows "print_summary results =
     ([(INFO, Summary_header), (INFO, Total_keywords (length results)),
       (INFO, Avg_search_volume
          (binary64_div (sum_list (map search_volume results)) (int (length results)))),
       (INFO, High_volume (length (filter (\<lambda>r. search_volume r > 1000) results))),
       (INFO, Low_competition (length (filter (\<lambda>r. competition r = ''LOW'') results))),
       (INFO, Top_keywords_header)]
      @ map top_keyword_line (top_keywords results), None)"
proof -
  have ne: "map search_volume results \<noteq> []" using assms(1) by simp
  have wf: "list_all is_int64 (map search_volume results)"
    using assms(2) by (simp add: list_all_iff)
  show ?thesis
    using py_truediv_mean [OF ne wf] assms(1) by (simp add: print_summary_def Let_def)
qed

text \<open>
  C5.  For every non-empty sequence of \<open>KeywordMetrics\<close> (with 64-bit search volumes)
  \<open>print_summary\<close> reports, last, the three records of greatest search volume (all of
  them when there are fewer), in descending order of search volume; among the records
  of any one search volume the reported ones are the first of the input, in the order
  of the input.
\<close>

theorem top_keywords_stable:
  assumes "results \<noteq> []" "list_all (\<lambda>r. is_int64 (search_volume r)) results"
  shows "(\<exists>head. print_summary results
             = (head @ map top_keyword_line (top_keywords results), None))
    \<and> length (top_keywords results) = min 3 (length results)
    \<and> sorted_wrt (\<lambda>a b. search_volume b \<le> search_volume a) (top_keywords results)
    \<and> (\<exists>rest. mset results = mset (top_keywords results) + mset rest
          \<and> (\<forall>t\<in>set (top_keywords results). \<forall>x\<in>set rest.
                search_volume x \<le> search_volume t))
    \<and> (\<forall>v. prefix (filter (\<lambda>r. search_volume r = v) (top_keywords results))
                   (filter (\<lambda>r. search_volume r = v) results))"
proof -
  define s where "s = py_sorted_reverse search_volume results"
  have top: "top_keywords results = take 3 s" by (simp add: top_keywords_def s_def)
  have split: "s = take 3 s @ drop 3 s" by simp
  have desc: "sorted_wrt (\<lambda>a b. search_volume b \<le> search_volume a) s"
    unfolding s_def by (rule py_sorted_reverse_descending)
  have a: "\<exists>head. print_summary results
             = (head @ map top_keyword_line (top_keywords results), None)"
    using print_summary_nonempty [OF assms] by blast
  have b: "length (top_keywords results) = min 3 (length results)"
  proof -
    have "length s = length results"
      using arg_cong [OF mset_py_sorted_reverse [of search_volume results], of size]
      by (simp add: s_def)
    then show ?thesis by (simp add: top min.commute)
  qed
  have c: "sorted_wrt (\<lambda>a b. search_volume b \<le> search_volume a) (top_keywords results)"
    unfolding top using desc by (rule sorted_wrt_take)
  have d: "\<exists>rest. mset results = mset (top_keywords results) + mset rest
          \<and> (\<forall>t\<in>set (top_keywords results). \<forall>x\<in>set rest.
                search_volume x \<le> search_volume t)"
  proof (intro exI conjI)
    have "mset results = mset s" by (simp add: s_def mset_py_sorted_reverse)
    also have "\<dots> = mset (take 3 s) + mset (drop 3 s)"
      by (simp only: mset_append [symmetric] append_take_drop_id)
    finally show "mset results = mset (top_keywords results) + mset (drop 3 s)"
      by (simp only: top)
    have "sorted_wrt (\<lambda>a b. search_volume b \<le> search_volume a) (take 3 s @ drop 3 s)"
      using desc by simp
    then show "\<forall>t\<in>set (top_keywords results). \<forall>x\<in>set (drop 3 s).
        search_volume x \<le> search_volume t"
      unfolding top by (simp only: sorted_wrt_append) blast
  qed
  have e: "\<forall>v. prefix (filter (\<lambda>r. search_volume r = v) (top_keywords results))
                   (filter (\<lambda>r. search_volume r = v) results)"
  proof
    fix v
    have "filter (\<lambda>r. search_volume r = v) results = filter (\<lambda>r. search_volume r = v) s"
      by (simp only: s_def py_sorted_reverse_stable)
    also have "\<dots> = filter (\<lambda>r. search_volume r = v) (take 3 s)
        @ filter (\<lambda>r. search_volume r = v) (drop 3 s)"
      by (simp only: filter_append [symmetric] append_take_drop_id)
    finally show "prefix (filter (\<lambda>r. search_volume r = v) (top_keywords results))
                   (filter (\<lambda>r. search_volume r = v) results)"
      by (simp add: top)
  qed
  from a b c d e show ?thesis by blast
qed

lemma sample_top_keywords:
  "top_keywords [sample_metrics ''a'' 500, sample_metrics ''b'' 2000, sample_metrics ''c'' 500,
       sample_metrics ''d'' 2000, sample_metrics ''e'' 500]
   = [sample_metrics ''b'' 2000, sample_metrics ''d'' 2000, sample_metrics ''a'' 500]"
  by (simp add: top_keywords_def py_sorted_reverse_def sample_metrics_def)

theorem top_keywords_stable_witness:
  "[sample_metrics ''a'' 500, sample_metrics ''b'' 2000, sample_metrics ''c'' 500,
       sample_metrics ''d'' 2000, sample_metrics ''e'' 500] \<noteq> []
   \<and> list_all (\<lambda>r. is_int64 (search_volume r))
       [sample_metrics ''a'' 500, sample_metrics ''b'' 2000, sample_metrics ''c'' 500,
        sample_metrics ''d'' 2000, sample_metrics ''e'' 500]
   \<and> (\<exists>head. print_summary
         [sample_metrics ''a'' 500, sample_metrics ''b'' 2000, sample_metrics ''c'' 500,
          sample_metrics ''d'' 2000, sample_metrics ''e'' 500]
        = (head @ [(INFO, Top_keyword ''b'' 2000 ''LOW''), (INFO, Top_keyword ''d'' 2000 ''LOW''),
                   (INFO, Top_keyword ''a'' 500 ''LOW'')], None))"
proof -
  let ?rs = "[sample_metrics ''a'' 500, sample_metrics ''b'' 2000, sample_metrics ''c'' 500,
       sample_metrics ''d'' 2000, sample_metrics ''e'' 500]"
  have ne: "?rs \<noteq> []" by simp
  have wf: "list_all (\<lambda>r. is_int64 (search_volume r)) ?rs"
    by (simp add: sample_metrics_def is_int64_def)
  have lines: "map top_keyword_line (top_keywords ?rs)
      = [(INFO, Top_keyword ''b'' 2000 ''LOW''), (INFO, Top_keyword ''d'' 2000 ''LOW''),
         (INFO, Top_keyword ''a'' 500 ''LOW'')]"
    by (simp add: sample_top_keywords) (simp add: top_keyword_line_def sample_metrics_def)
  from top_keywords_stable [OF ne wf]
  have "\<exists>head. print_summary ?rs = (head @ map top_keyword_line (top_keywords ?rs), None)"
    by blast
  then have "\<exists>head. print_summary ?rs
        = (head @ [(INFO, Top_keyword ''b'' 2000 ''LOW''), (INFO, Top_keyword ''d'' 2000 ''LOW''),
                   (INFO, Top_keyword ''a'' 500 ''LOW'')], None)"
    by (simp only: lines)
  with ne wf show ?thesis by blast
qed

text \<open>
  C6, as amended.  On the empty sequence \<open>print_summary\<close> raises nothing and logs one
  warning, that there are no results to summarize; it reports no count, no mean and no
  top keyword.
\<close>

theorem print_summary_empty:
  "print_summary [] = ([(WARNING, No_results_to_summarize)], None)"
  by (simp add: print_summary_def)

text \<open>
  The claim C6 as it is written has the empty summary report zero counts; no count is
  logged.
\<close>

theorem print_summary_empty_reports_no_counts:
  "\<not> (snd (print_summary []) = None
      \<and> (WARNING, No_results_to_summarize) \<in> set (fst (print_summary []))
      \<and> (INFO, Total_keywords 0) \<in> set (fst (print_summary []))
      \<and> (INFO, High_volume 0) \<in> set (fst (print_summary []))
      \<and> (INFO, Low_competition 0) \<in> set (fst (print_summary [])))"
  by (simp add: print_summary_def)

section \<open>Verification: construction and authentication\<close>

















section \<open>Verification: export\<close>

lemma is_digit_digit_char: "n < 10 \<Longrightarrow> is_digit (digit_char n)"
  by (simp add: is_digit_def digit_char_def)

lemma digits_decimal: "list_all is_digit (decimal n)"
proof (induction n rule: decimal.induct)
  case (1 n)
  show ?case
  proof (cases "n < 10")
    case True
    then show ?thesis by (subst decimal.simps) (simp add: is_digit_digit_char)
  next
    case False
    then have "list_all is_digit (decimal (n div 10))" by (rule "1.IH")
    then show ?thesis using False by (subst decimal.simps) (simp add: is_digit_digit_char)
  qed
qed

lemma length_decimal_1: "n < 10 \<Longrightarrow> length (decimal n) = 1"
  by (subst decimal.simps) simp

lemma length_decimal_2: "10 \<le> n \<Longrightarrow> n < 100 \<Longrightarrow> length (decimal n) = 2"
  by (subst decimal.simps) (simp add: length_decimal_1)

lemma length_decimal_3: "100 \<le> n \<Longrightarrow> n < 1000 \<Longrightarrow> length (decimal n) = 3"
  by (subst decimal.simps) (simp add: length_decimal_2)

lemma length_decimal_4: "1000 \<le> n \<Longrightarrow> n < 10000 \<Longrightarrow> length (decimal n) = 4"
  by (subst decimal.simps) (simp add: length_decimal_3)

lemma two_digits_shape:
  assumes "n < 100"
  shows "length (two_digits n) = 2" "list_all is_digit (two_digits n)"
proof -
  show "length (two_digits n) = 2"
    using assms by (simp add: two_digits_def length_decimal_1 length_decimal_2)
  have "is_digit CHR ''0''" by (simp add: is_digit_def)
  then show "list_all is_digit (two_digits n)"
    by (simp add: two_digits_def digits_decimal)
qed

lemma timestamp_shape:
  assumes "length d = 8" "list_all is_digit d" "length t = 6" "list_all is_digit t"
  shows "is_timestamp (d @ ''_'' @ t)"
  using assms by (simp add: is_timestamp_def nth_append)

lemma strftime_is_timestamp:
  assumes "valid_datetime now"
  shows "is_timestamp (strftime now)"
proof -
  from assms have y: "1000 \<le> dt_year now" "dt_year now < 10000"
    and m: "dt_month now < 100" and d: "dt_day now < 100"
    and h: "dt_hour now < 100" and mi: "dt_minute now < 100" and s: "dt_second now < 100"
    by (simp_all add: valid_datetime_def)
  let ?d = "decimal (dt_year now) @ two_digits (dt_month now) @ two_digits (dt_day now)"
  let ?t = "two_digits (dt_hour now) @ two_digits (dt_minute now) @ two_digits (dt_second now)"
  have "length ?d = 8"
    by (simp add: length_decimal_4 [OF y] two_digits_shape(1) [OF m] two_digits_shape(1) [OF d])
  moreover have "list_all is_digit ?d"
    by (simp add: digits_decimal two_digits_shape(2) [OF m] two_digits_shape(2) [OF d])
  moreover have "length ?t = 6"
    by (simp add: two_digits_shape(1) [OF h] two_digits_shape(1) [OF mi]
        two_digits_shape(1) [OF s])
  moreover have "list_all is_digit ?t"
    by (simp add: two_digits_shape(2) [OF h] two_digits_shape(2) [OF mi]
        two_digits_shape(2) [OF s])
  ultimately have "is_timestamp (?d @ ''_'' @ ?t)" by (rule timestamp_shape)
  then show ?thesis by (simp add: strftime_def)
qed

lemma add_keys_known: "set ks \<subseteq> set cols \<Longrightarrow> add_keys cols ks = cols"
  by (induction ks arbitrary: cols) simp_all

lemma keys_model_dump: "map fst (model_dump r) = field_names"
  by (simp add: model_dump_def field_names_def)

lemma foldl_add_keys_field_names:
  "foldl add_keys field_names (map (map fst \<circ> model_dump) rs) = field_names"
  by (induction rs) (simp_all add: keys_model_dump add_keys_known)

lemma columns_DataFrame:
  "columns (DataFrame (map model_dump results)) = (if results = [] then [] else field_names)"
proof (cases results)
  case Nil
  then show ?thesis by (simp add: DataFrame_def)
next
  case (Cons r rs)
  have "add_keys [] field_names = field_names" by (simp add: field_names_def)
  then show ?thesis
    by (simp add: Cons DataFrame_def Let_def keys_model_dump foldl_add_keys_field_names)
qed

lemma row_model_dump:
  "map (map_of (model_dump r)) field_names = map (\<lambda>(k, v). Some v) (model_dump r)"
  by (simp add: model_dump_def field_names_def)

lemma frame_rows_DataFrame:
  "frame_rows (DataFrame (map model_dump results))
     = map (\<lambda>r. map (\<lambda>(k, v). Some v) (model_dump r)) results"
proof (cases "results = []")
  case True
  then show ?thesis by (simp add: DataFrame_def)
next
  case False
  have "frame_rows (DataFrame (map model_dump results))
      = map (\<lambda>d. map (map_of d) (columns (DataFrame (map model_dump results))))
          (map model_dump results)"
    by (simp add: DataFrame_def Let_def)
  then show ?thesis using False by (simp add: columns_DataFrame row_model_dump comp_def)
qed

text \<open>
  C9, as amended.  For every sequence of \<open>KeywordMetrics\<close> and every format string,
  \<open>save_results\<close> writes one file named \<open>keywords_<YYYYMMDD_HHMMSS>\<close> with the extension
  of the chosen form.  When the format is \<open>csv\<close> in any letter case the file is tabular,
  with one row per record in order and, for a non-empty sequence, the field names as the
  header; for the empty sequence the header is empty too.  For every other format value
  the file is the array of the records' field-name/value objects, in order.
\<close>

theorem save_results_export:
  assumes "valid_datetime now"
  shows "is_timestamp (strftime now)
    \<and> save_results now files results format =
        (if py_lower format = ''csv''
         then (''keywords_'' @ strftime now @ ''.csv'',
               files(''keywords_'' @ strftime now @ ''.csv'' \<mapsto>
                 Csv_file (if results = [] then [] else field_names)
                   (map (\<lambda>r. map (\<lambda>(k, v). Some v) (model_dump r)) results)),
               [(INFO, Results_saved (''keywords_'' @ strftime now @ ''.csv''))])
         else (''keywords_'' @ strftime now @ ''.json'',
               files(''keywords_'' @ strftime now @ ''.json'' \<mapsto>
                 Json_file (map model_dump results)),
               [(INFO, Results_saved (''keywords_'' @ strftime now @ ''.json''))]))
    \<and> (\<forall>r\<in>set results. map fst (model_dump r) = field_names)"
proof -
  have "to_csv (DataFrame (map model_dump results))
      = Csv_file (if results = [] then [] else field_names)
          (map (\<lambda>r. map (\<lambda>(k, v). Some v) (model_dump r)) results)"
    by (simp only: to_csv_def columns_DataFrame frame_rows_DataFrame)
  then show ?thesis
    using strftime_is_timestamp [OF assms]
    by (simp add: save_results_def Let_def keys_model_dump)
qed

lemma valid_sample_now: "valid_datetime sample_now"
  by (simp add: valid_datetime_def sample_now_def)

lemma strftime_sample_now: "strftime sample_now = ''20240309_140500''"
  by (simp add: strftime_def sample_now_def two_digits_def decimal.simps digit_char_def
      char_of_def bit_Suc_0_iff)

theorem save_results_export_witness:
  "valid_datetime sample_now
   \<and> is_timestamp ''20240309_140500''
   \<and> fst (save_results sample_now Map.empty [sample_metrics ''a'' 500] ''CSV'')
       = ''keywords_20240309_140500.csv''
   \<and> fst (save_results sample_now Map.empty [sample_metrics ''a'' 500] ''xml'')
       = ''keywords_20240309_140500.json''"
proof -
  have c: "py_lower ''CSV'' = ''csv''" and x: "py_lower ''xml'' \<noteq> ''csv''"
    by (simp_all add: py_lower_def lower_char_def char_of_def bit_Suc_0_iff)
  show ?thesis
    using save_results_export [OF valid_sample_now, of Map.empty "[sample_metrics ''a'' 500]" "''CSV''"]
      save_results_export [OF valid_sample_now, of Map.empty "[sample_metrics ''a'' 500]" "''xml''"]
      valid_sample_now c x
    by (simp add: strftime_sample_now)
qed

text \<open>
  The claim C9 as it is written gives every tabular file the field names as its header;
  the file written for the empty sequence has no column.
\<close>

theorem save_results_empty_csv_has_no_header:
  "\<not> (\<exists>rows. fst (snd (save_results sample_now Map.empty [] ''csv''))
                (fst (save_results sample_now Map.empty [] ''csv''))
              = Some (Csv_file field_names rows))"
proof -
  have c: "py_lower ''csv'' = ''csv''"
    by (simp add: py_lower_def lower_char_def)
  have "save_results sample_now Map.empty [] ''csv''
      = (''keywords_20240309_140500.csv'',
         [''keywords_20240309_140500.csv'' \<mapsto> Csv_file [] []],
         [(INFO, Results_saved ''keywords_20240309_140500.csv'')])"
    by (simp add: save_results_def Let_def c strftime_sample_now to_csv_def DataFrame_def)
  then show ?thesis by (simp add: field_names_def)
qed

end
